theory Spec2Isabelle
  imports Main
begin

section \<open>Values, responses and the file system shared by the three API handlers\<close>

text \<open>
  The handlers of \<^verbatim>\<open>pages/api\<close> read JSON request bodies, answer with
  \<^verbatim>\<open>res.status(n).json({...})\<close> and touch the disk through Node's \<^verbatim>\<open>fs\<close>.
  A JSON value is a small datatype, a JSON object an association list in the order of the
  object literal, a response the status with the body. A JavaScript string is modelled as
  a \<open>string\<close>, the bytes of its text in UTF-8: an ASCII code unit is one \<open>char\<close>, a
  code unit from 128 to 255 two, with 194 or 195 first.
\<close>

datatype jval = JUndefined | JNull | JBool bool | JNum int | JStr string | JObject

type_synonym response = "nat \<times> (string \<times> jval) list"

text \<open>JavaScript truthiness, as \<^verbatim>\<open>!filename\<close> and \<^verbatim>\<open>error || '...'\<close> use it.\<close>

fun truthy :: "jval \<Rightarrow> bool" where
  "truthy JUndefined = False"
| "truthy JNull = False"
| "truthy (JBool b) = b"
| "truthy (JNum n) = (n \<noteq> 0)"
| "truthy (JStr s) = (s \<noteq> [])"
| "truthy JObject = True"

datatype node = File string | Dir

datatype fs_error = ENOENT | EISDIR | ENOTDIR

type_synonym fsys = "string \<Rightarrow> node option"

definition existsSync :: "fsys \<Rightarrow> string \<Rightarrow> bool" where
  "existsSync fs p = (fs p \<noteq> None)"

definition unlinkSync :: "fsys \<Rightarrow> string \<Rightarrow> fs_error + fsys" where
  "unlinkSync fs p =
     (case fs p of
        None \<Rightarrow> Inl ENOENT
      | Some Dir \<Rightarrow> Inl EISDIR
      | Some (File c) \<Rightarrow> Inr (fs(p := None)))"

definition readFileSync :: "fsys \<Rightarrow> string \<Rightarrow> fs_error + string" where
  "readFileSync fs p =
     (case fs p of
        None \<Rightarrow> Inl ENOENT
      | Some Dir \<Rightarrow> Inl EISDIR
      | Some (File c) \<Rightarrow> Inr c)"

definition mkdirSync :: "fsys \<Rightarrow> string \<Rightarrow> fsys" where
  "mkdirSync fs p = fs(p \<mapsto> Dir)"

text \<open>
  The directory a path lies in, as \<^verbatim>\<open>path.dirname\<close> gives it: trailing slashes do not
  count, and what precedes the last slash is the directory.
\<close>

definition dirname :: "string \<Rightarrow> string" where
  "dirname p =
     (let q = rev (dropWhile (\<lambda>c. c = CHR ''/'') (rev p))
      in if q = [] then (if p = [] then ''.'' else ''/'')
         else if CHR ''/'' \<notin> set q then ''.''
         else
           let d = rev (dropWhile (\<lambda>c. c = CHR ''/'')
                          (dropWhile (\<lambda>c. c \<noteq> CHR ''/'') (rev q)))
           in if d = [] then ''/'' else d)"

text \<open>
  \<^verbatim>\<open>fs.renameSync\<close> raises when the source is missing, when the directory of the
  destination is missing or is not a directory, and when the destination is a directory.
\<close>

definition renameSync :: "fsys \<Rightarrow> string \<Rightarrow> string \<Rightarrow> fs_error + fsys" where
  "renameSync fs old new =
     (case fs old of
        None \<Rightarrow> Inl ENOENT
      | Some n \<Rightarrow>
          (case fs (dirname new) of
             None \<Rightarrow> Inl ENOENT
           | Some (File c) \<Rightarrow> Inl ENOTDIR
           | Some Dir \<Rightarrow>
               if fs new = Some Dir then Inl EISDIR
               else Inr ((fs(old := None))(new \<mapsto> n))))"

section \<open>Node's \<^verbatim>\<open>path.join\<close> on POSIX paths\<close>

text \<open>
  \<^verbatim>\<open>path.join\<close> concatenates its non-empty arguments with \<^verbatim>\<open>/\<close> and normalises
  the result: empty and \<^verbatim>\<open>.\<close> segments vanish, a \<^verbatim>\<open>..\<close> segment removes the segment
  before it (and is dropped at the root of an absolute path), a trailing slash is kept.
\<close>

fun split_slash :: "string \<Rightarrow> string list" where
  "split_slash [] = [[]]"
| "split_slash (c # cs) =
     (if c = CHR ''/'' then [] # split_slash cs
      else (case split_slash cs of
              [] \<Rightarrow> [[c]]
            | s # ss \<Rightarrow> (c # s) # ss))"

fun join_slash :: "string list \<Rightarrow> string" where
  "join_slash [] = []"
| "join_slash [s] = s"
| "join_slash (s # t # ss) = s @ ''/'' @ join_slash (t # ss)"

text \<open>
  \<open>normalizeString\<close>: the accumulator \<open>res\<close> holds the segments kept so far, last one
  first.
\<close>

fun normalizeString :: "bool \<Rightarrow> string list \<Rightarrow> string list \<Rightarrow> string list" where
  "normalizeString allowAboveRoot res [] = rev res"
| "normalizeString allowAboveRoot res (s # ss) =
     (if s = [] \<or> s = ''.'' then normalizeString allowAboveRoot res ss
      else if s = ''..'' then
        (case res of
           [] \<Rightarrow> normalizeString allowAboveRoot (if allowAboveRoot then [''..''] else []) ss
         | r # rs \<Rightarrow>
             if r = ''..'' then
               normalizeString allowAboveRoot (if allowAboveRoot then ''..'' # res else res) ss
             else normalizeString allowAboveRoot rs ss)
      else normalizeString allowAboveRoot (s # res) ss)"

definition normalize :: "string \<Rightarrow> string" where
  "normalize p =
     (if p = [] then ''.''
      else
        let isAbsolute = (hd p = CHR ''/'');
            trailingSeparator = (last p = CHR ''/'');
            body = join_slash (normalizeString (\<not> isAbsolute) [] (split_slash p))
        in if body = [] then
             (if isAbsolute then ''/'' else if trailingSeparator then ''./'' else ''.'')
           else (if isAbsolute then ''/'' else []) @ body
                  @ (if trailingSeparator then ''/'' else []))"

definition path_join :: "string list \<Rightarrow> string" where
  "path_join args =
     (case filter (\<lambda>a. a \<noteq> []) args of
        [] \<Rightarrow> ''.''
      | a # as \<Rightarrow> normalize (join_slash (a # as)))"

definition startsWith :: "string \<Rightarrow> string \<Rightarrow> bool" where
  "startsWith s pre = (take (length pre) s = pre)"

definition endsWith :: "string \<Rightarrow> string \<Rightarrow> bool" where
  "endsWith s suf = (length suf \<le> length s \<and> drop (length s - length suf) s = suf)"

text \<open>A path lies inside a directory when it names something below it.\<close>

definition inside_dir :: "string \<Rightarrow> string \<Rightarrow> bool" where
  "inside_dir dir p = startsWith p (dir @ ''/'')"

section \<open>\<^verbatim>\<open>pages/api/process.js\<close>: the handler that runs the engine\<close>

text \<open>
  The request: its method and its parsed JSON body, an object. The child process is the
  environment: it delivers the events the handler registered callbacks for, data first and
  \<^verbatim>\<open>'close'\<close> last. \<open>Close code\<close> carries the exit code (\<open>None\<close> is JavaScript's
  \<open>null\<close>, a process ended by a signal); \<open>SpawnError\<close> is the \<^verbatim>\<open>'error'\<close> event of a
  process that could not be started, which \<^verbatim>\<open>'close'\<close> follows with a negative code.
\<close>

record preq =
  pmethod :: string
  pbody :: "(string \<times> jval) list"

datatype child_event =
    StdoutData string
  | StderrData string
  | Close "int option"
  | SpawnError

text \<open>
  The state the callbacks share: the two accumulators \<^verbatim>\<open>output\<close> and \<^verbatim>\<open>error\<close>,
  the calls of \<^verbatim>\<open>res.status(..).json(..)\<close> in order (the client receives the first),
  whether the promise is resolved, and the disk.
\<close>

record pstate =
  output_acc :: string
  error_acc :: string
  sent :: "response list"
  resolved :: bool
  pfs :: fsys

definition send :: "response \<Rightarrow> pstate \<Rightarrow> pstate" where
  "send r st = st\<lparr>sent := sent st @ [r]\<rparr>"

definition on_close :: "string \<Rightarrow> string \<Rightarrow> int option \<Rightarrow> pstate \<Rightarrow> pstate" where
  "on_close inputPath outputFilename code st =
     (let st1 = (case unlinkSync (pfs st) inputPath of
                   Inl e \<Rightarrow> st
                 | Inr fs' \<Rightarrow> st\<lparr>pfs := fs'\<rparr>);
          st2 = (if code = Some 0 then
                   send (200, [(''success'', JBool True),
                               (''outputFile'', JStr outputFilename),
                               (''logs'', JStr (output_acc st1))]) st1
                 else
                   send (500, [(''error'', JStr (if truthy (JStr (error_acc st1)) then error_acc st1
                                                  else ''Processing failed'')),
                               (''logs'', JStr (output_acc st1))]) st1)
      in st2\<lparr>resolved := True\<rparr>)"

definition on_error :: "pstate \<Rightarrow> pstate" where
  "on_error st =
     (send (500, [(''error'',
                   JStr ''Failed to start processing. Make sure Python is installed.'')]) st)
       \<lparr>resolved := True\<rparr>"

fun on_event :: "string \<Rightarrow> string \<Rightarrow> pstate \<Rightarrow> child_event \<Rightarrow> pstate" where
  "on_event inputPath outputFilename st (StdoutData d) = st\<lparr>output_acc := output_acc st @ d\<rparr>"
| "on_event inputPath outputFilename st (StderrData d) = st\<lparr>error_acc := error_acc st @ d\<rparr>"
| "on_event inputPath outputFilename st (Close code) = on_close inputPath outputFilename code st"
| "on_event inputPath outputFilename st SpawnError = on_error st"

text \<open>
  What one call of the handler did: the responses sent, the processes spawned (command and
  arguments), the disk afterwards, whether it threw (\<^verbatim>\<open>path.join\<close> raises a
  TypeError on an argument that is not a string), and whether the call has ended (the
  handler returned, or the promise it returned is resolved).
\<close>

record prun =
  responses :: "response list"
  spawned :: "(string \<times> string list) list"
  fs_after :: fsys
  threw :: bool
  ended :: bool

definition process_handler :: "string \<Rightarrow> fsys \<Rightarrow> preq \<Rightarrow> child_event list \<Rightarrow> prun" where
  "process_handler cwd fs req evs =
     (if pmethod req \<noteq> ''POST'' then
        \<lparr>responses = [(405, [(''error'', JStr ''Method not allowed'')])],
         spawned = [], fs_after = fs, threw = False, ended = True\<rparr>
      else
        let filename = (case map_of (pbody req) ''filename'' of
                          None \<Rightarrow> JUndefined | Some v \<Rightarrow> v)
        in if \<not> truthy filename then
             \<lparr>responses = [(400, [(''error'', JStr ''Filename is required'')])],
              spawned = [], fs_after = fs, threw = False, ended = True\<rparr>
           else
             (case filename of
                JStr fname \<Rightarrow>
                  let inputPath = path_join [cwd, ''uploads'', fname];
                      outputDir = path_join [cwd, ''outputs''];
                      outputFilename = ''processed_'' @ fname;
                      outputPath = path_join [outputDir, outputFilename]
                  in if \<not> existsSync fs inputPath then
                       \<lparr>responses = [(404, [(''error'', JStr ''File not found'')])],
                        spawned = [], fs_after = fs, threw = False, ended = True\<rparr>
                     else
                       let fs1 = (if \<not> existsSync fs outputDir then mkdirSync fs outputDir
                                  else fs);
                           pythonScript = path_join [cwd, ''python'', ''toc_formatter.py''];
                           st0 = \<lparr>output_acc = [], error_acc = [], sent = [], resolved = False,
                                  pfs = fs1\<rparr>;
                           st = foldl (on_event inputPath outputFilename) st0 evs
                       in \<lparr>responses = sent st,
                           spawned = [(''python3'',
                                       [pythonScript, inputPath, ''-o'', outputPath])],
                           fs_after = pfs st, threw = False, ended = resolved st\<rparr>
              | _ \<Rightarrow> \<lparr>responses = [], spawned = [], fs_after = fs, threw = True,
                       ended = True\<rparr>))"

text \<open>The response the client receives: the first one sent.\<close>

definition client_response :: "prun \<Rightarrow> response option" where
  "client_response r = (case responses r of [] \<Rightarrow> None | x # _ \<Rightarrow> Some x)"

text \<open>The chunks a list of data events delivers on each stream.\<close>

fun is_data :: "child_event \<Rightarrow> bool" where
  "is_data (StdoutData d) = True"
| "is_data (StderrData d) = True"
| "is_data _ = False"

fun stdout_of :: "child_event list \<Rightarrow> string" where
  "stdout_of [] = []"
| "stdout_of (StdoutData d # es) = d @ stdout_of es"
| "stdout_of (e # es) = stdout_of es"

fun stderr_of :: "child_event list \<Rightarrow> string" where
  "stderr_of [] = []"
| "stderr_of (StderrData d # es) = d @ stderr_of es"
| "stderr_of (e # es) = stderr_of es"

section \<open>\<^verbatim>\<open>pages/api/upload.js\<close>: the upload handler\<close>

text \<open>
  \<^verbatim>\<open>form.parse\<close> belongs to the formidable library: it writes every uploaded part to a
  temporary file below \<^verbatim>\<open>uploadDir\<close> and returns, for each field name, the files
  received under it. The handler only looks at the field \<^verbatim>\<open>file\<close>. The library call
  is a parameter of the model: given the disk, it yields its outcome (a rejection, or the
  value of \<^verbatim>\<open>files.file\<close>) and the disk with the temporary files on it.
\<close>

record upfile =
  filepath :: string
  originalFilename :: "string option"

datatype files_field = FUndefined | FSingle upfile | FArray "upfile list"

datatype parse_outcome = ParseRejected | Parsed files_field

text \<open>
  The decimal digits of a number, as a template literal prints \<^verbatim>\<open>Date.now()\<close>.
\<close>

definition digit_char :: "nat \<Rightarrow> char" where
  "digit_char d = ''0123456789'' ! d"

fun show_nat :: "nat \<Rightarrow> string" where
  "show_nat n =
     (if n < 10 then [digit_char n] else show_nat (n div 10) @ [digit_char (n mod 10)])"

declare show_nat.simps [simp del]

text \<open>\<^verbatim>\<open>Array.isArray(files.file) ? files.file[0] : files.file\<close>\<close>

fun first_file :: "files_field \<Rightarrow> upfile option" where
  "first_file FUndefined = None"
| "first_file (FSingle f) = Some f"
| "first_file (FArray []) = None"
| "first_file (FArray (f # fs)) = Some f"

text \<open>\<^verbatim>\<open>file.originalFilename?.endsWith('.docx')\<close>, undefined counting as false.\<close>

definition has_docx_name :: "upfile \<Rightarrow> bool" where
  "has_docx_name f =
     (case originalFilename f of None \<Rightarrow> False | Some n \<Rightarrow> endsWith n ''.docx'')"

definition upload_filename :: "nat \<Rightarrow> string \<Rightarrow> string" where
  "upload_filename timestamp orig = show_nat timestamp @ ''_'' @ orig"

definition upload_handler ::
  "string \<Rightarrow> (fsys \<Rightarrow> parse_outcome \<times> fsys) \<Rightarrow> nat \<Rightarrow> fsys \<Rightarrow> string \<Rightarrow> response \<times> fsys"
where
  "upload_handler cwd parse now fs method =
     (if method \<noteq> ''POST'' then ((405, [(''error'', JStr ''Method not allowed'')]), fs)
      else
        let uploadDir = path_join [cwd, ''uploads''];
            fs1 = (if \<not> existsSync fs uploadDir then mkdirSync fs uploadDir else fs)
        in case parse fs1 of
             (ParseRejected, fs2) \<Rightarrow> ((500, [(''error'', JStr ''Upload failed'')]), fs2)
           | (Parsed ff, fs2) \<Rightarrow>
               (case first_file ff of
                  None \<Rightarrow> ((400, [(''error'', JStr ''No file uploaded'')]), fs2)
                | Some file \<Rightarrow>
                    if \<not> has_docx_name file then
                      (case unlinkSync fs2 (filepath file) of
                         Inl e \<Rightarrow> ((500, [(''error'', JStr ''Upload failed'')]), fs2)
                       | Inr fs3 \<Rightarrow>
                           ((400, [(''error'', JStr ''Only .docx files are allowed'')]), fs3))
                    else
                      let orig = (case originalFilename file of None \<Rightarrow> [] | Some n \<Rightarrow> n);
                          filename = upload_filename now orig;
                          newPath = path_join [uploadDir, filename]
                      in case renameSync fs2 (filepath file) newPath of
                           Inl e \<Rightarrow> ((500, [(''error'', JStr ''Upload failed'')]), fs2)
                         | Inr fs3 \<Rightarrow>
                             ((200, [(''success'', JBool True),
                                     (''filename'', JStr filename),
                                     (''originalName'', JStr orig)]), fs3)))"

section \<open>\<^verbatim>\<open>pages/api/download.js\<close>: the download handler\<close>

text \<open>
  The query parameter \<^verbatim>\<open>file\<close> is absent, a string, or (given twice) an array.
\<close>

datatype qparam = QAbsent | QStr string | QArr "string list"

text \<open>\<^verbatim>\<open>String.prototype.replace\<close> with a string pattern: the first occurrence only.\<close>

fun replace_first :: "string \<Rightarrow> string \<Rightarrow> string \<Rightarrow> string" where
  "replace_first pat rep [] = (if pat = [] then rep else [])"
| "replace_first pat rep (c # cs) =
     (if startsWith (c # cs) pat then rep @ drop (length pat) (c # cs)
      else c # replace_first pat rep cs)"

definition is_digit :: "char \<Rightarrow> bool" where
  "is_digit c = (c \<in> set ''0123456789'')"

text \<open>
  The regular expression \<^verbatim>\<open>/^\d+_/\<close>: anchored at the start, \<^verbatim>\<open>\d+\<close> takes the
  longest run of digits and gives digits back one at a time until an underscore follows.
  \<open>match_digits_underscore k s\<close> tries \<open>k\<close> digits, then fewer; it returns the length
  of the match.
\<close>

fun match_digits_underscore :: "nat \<Rightarrow> string \<Rightarrow> nat option" where
  "match_digits_underscore 0 s = None"
| "match_digits_underscore (Suc k) s =
     (if Suc k < length s \<and> s ! Suc k = CHR ''_'' then Some (Suc (Suc k))
      else match_digits_underscore k s)"

definition strip_digits_underscore :: "string \<Rightarrow> string" where
  "strip_digits_underscore s =
     (case match_digits_underscore (length (takeWhile is_digit s)) s of
        None \<Rightarrow> s
      | Some n \<Rightarrow> drop n s)"

text \<open>\<^verbatim>\<open>file.replace('processed_', '').replace(/^\d+_/, '')\<close>\<close>

definition original_name :: "string \<Rightarrow> string" where
  "original_name file = strip_digits_underscore (replace_first ''processed_'' [] file)"

datatype dl_response =
    DJson nat "(string \<times> jval) list"
  | DFile "(string \<times> string) list" string

text \<open>
  \<^verbatim>\<open>res.setHeader\<close> raises on a header value with a code unit other than the tab and
  those from 32 to 126 and from 128 to 255: a control character, or a character beyond
  Latin-1. In UTF-8 the code units from 128 to 255 are the two-byte sequences that start
  with 194 or 195; \<open>pending\<close> tells that the second byte of such a sequence is due.
\<close>

fun header_value_ok :: "bool \<Rightarrow> string \<Rightarrow> bool" where
  "header_value_ok pending [] = (\<not> pending)"
| "header_value_ok pending (c # cs) =
     (let n = (of_char c :: nat)
      in if pending then 128 \<le> n \<and> n \<le> 191 \<and> header_value_ok False cs
         else if n = 9 \<or> (32 \<le> n \<and> n \<le> 126) then header_value_ok False cs
         else if n = 194 \<or> n = 195 then header_value_ok True cs
         else False)"

text \<open>
  One call of the download handler: the responses sent, the paths handed to
  \<^verbatim>\<open>readFileSync\<close>, the disk once the clean-up timer has fired, and whether the
  handler threw (\<^verbatim>\<open>path.join\<close> on an array).
\<close>

record drun =
  dsent :: "dl_response list"
  dread :: "string list"
  dfs_after :: fsys
  dthrew :: bool

definition download_handler :: "string \<Rightarrow> fsys \<Rightarrow> string \<Rightarrow> qparam \<Rightarrow> drun" where
  "download_handler cwd fs method q =
     (if method \<noteq> ''GET'' then
        \<lparr>dsent = [DJson 405 [(''error'', JStr ''Method not allowed'')]],
         dread = [], dfs_after = fs, dthrew = False\<rparr>
      else
        (case q of
           QAbsent \<Rightarrow>
             \<lparr>dsent = [DJson 400 [(''error'', JStr ''File parameter is required'')]],
              dread = [], dfs_after = fs, dthrew = False\<rparr>
         | QArr xs \<Rightarrow> \<lparr>dsent = [], dread = [], dfs_after = fs, dthrew = True\<rparr>
         | QStr file \<Rightarrow>
             if file = [] then
               \<lparr>dsent = [DJson 400 [(''error'', JStr ''File parameter is required'')]],
                dread = [], dfs_after = fs, dthrew = False\<rparr>
             else
               let filePath = path_join [cwd, ''outputs'', file]
               in if \<not> existsSync fs filePath then
                    \<lparr>dsent = [DJson 404 [(''error'', JStr ''File not found'')]],
                     dread = [], dfs_after = fs, dthrew = False\<rparr>
                  else
                    (case readFileSync fs filePath of
                       Inl e \<Rightarrow>
                         \<lparr>dsent = [DJson 500 [(''error'', JStr ''Failed to download file'')]],
                          dread = [filePath], dfs_after = fs, dthrew = False\<rparr>
                     | Inr fileBuffer \<Rightarrow>
                         let originalName = original_name file;
                             disposition = ''attachment; filename='' @ [CHR 0x22]
                                             @ originalName @ [CHR 0x22]
                         in if \<not> header_value_ok False disposition then
                              \<lparr>dsent = [DJson 500
                                         [(''error'', JStr ''Failed to download file'')]],
                               dread = [filePath], dfs_after = fs, dthrew = False\<rparr>
                            else
                              \<lparr>dsent =
                                 [DFile [(''Content-Disposition'', disposition),
                                         (''Content-Type'',
                                          ''application/vnd.openxmlformats-officedocument.wordprocessingml.document''),
                                         (''Content-Length'', show_nat (length fileBuffer))]
                                    fileBuffer],
                               dread = [filePath],
                               dfs_after = (case unlinkSync fs filePath of
                                              Inl e \<Rightarrow> fs | Inr fs' \<Rightarrow> fs'),
                               dthrew = False\<rparr>)))"

section \<open>The rewriting engine \<^verbatim>\<open>python/toc_formatter.py\<close>\<close>

text \<open>
  The handlers above run the engine as a child process; its source is not among the files
  of the repository at hand. Every definition of this section is modelled from the
  specification of the engine.
\<close>

subsection \<open>Text\<close>

text \<open>
  Modelled from the spec: the source \<^verbatim>\<open>python/toc_formatter.py\<close> is missing.
  The characters of paragraph text. Paragraph text is arbitrary Unicode (section 4.1); the
  engine tells apart ASCII characters, the arrow glyph, the one-character ellipsis and the
  em dash of its own separator; any other character is \<open>Other\<close> with its code point.
  Whitespace is the space and the tab; a dot character is the period or the ellipsis.
\<close>

datatype uchar = Asc char | Arrow | Ellipsis | EmDash | Other nat

type_synonym utext = "uchar list"

definition asc :: "string \<Rightarrow> utext" where
  "asc s = map Asc s"

definition space :: uchar where
  "space = Asc CHR '' ''"

definition tab :: uchar where
  "tab = Asc (CHR 0x09)"

definition is_space :: "uchar \<Rightarrow> bool" where
  "is_space c = (c = space \<or> c = tab)"

definition is_dot :: "uchar \<Rightarrow> bool" where
  "is_dot c = (c = Asc CHR ''.'' \<or> c = Ellipsis)"

text \<open>Letters and digits are the ASCII ones, told by their codes.\<close>

definition is_udigit :: "uchar \<Rightarrow> bool" where
  "is_udigit c =
     (case c of
        Asc a \<Rightarrow> 48 \<le> (of_char a :: nat) \<and> (of_char a :: nat) \<le> 57
      | _ \<Rightarrow> False)"

definition is_upper :: "uchar \<Rightarrow> bool" where
  "is_upper c =
     (case c of
        Asc a \<Rightarrow> 65 \<le> (of_char a :: nat) \<and> (of_char a :: nat) \<le> 90
      | _ \<Rightarrow> False)"

definition is_lower :: "uchar \<Rightarrow> bool" where
  "is_lower c =
     (case c of
        Asc a \<Rightarrow> 97 \<le> (of_char a :: nat) \<and> (of_char a :: nat) \<le> 122
      | _ \<Rightarrow> False)"

definition is_alnum :: "uchar \<Rightarrow> bool" where
  "is_alnum c = (is_upper c \<or> is_lower c \<or> is_udigit c)"

definition to_upper :: "uchar \<Rightarrow> uchar" where
  "to_upper c =
     (case c of
        Asc a \<Rightarrow> if is_lower c then Asc (char_of ((of_char a :: nat) - 32)) else c
      | _ \<Rightarrow> c)"

definition lstrip :: "utext \<Rightarrow> utext" where
  "lstrip t = dropWhile is_space t"

definition rstrip :: "utext \<Rightarrow> utext" where
  "rstrip t = rev (dropWhile is_space (rev t))"

definition trim :: "utext \<Rightarrow> utext" where
  "trim t = rstrip (lstrip t)"

subsection \<open>Data model\<close>

text \<open>
  Modelled from the spec: the source \<^verbatim>\<open>python/toc_formatter.py\<close> is missing.
  RawParagraph (section 3), "a sequence of styled text runs plus
  paragraph-level style metadata (e.g., named style, indentation)"; the page break stands
  for the properties that have nothing to do with the formatting of the table of contents.
\<close>

record run =
  run_text :: utext
  run_style :: string

record raw_paragraph =
  runs :: "run list"
  style_name :: string
  para_indent :: nat
  tab_stops :: "nat list"
  page_break :: bool

type_synonym document = "raw_paragraph list"

definition raw_text :: "raw_paragraph \<Rightarrow> utext" where
  "raw_text p = concat (map run_text (runs p))"

text \<open>
  Modelled from the spec: the source \<^verbatim>\<open>python/toc_formatter.py\<close> is missing.
  ClassifiedEntry (section 3). A page number is an integer or a
  Roman-numeral string, kept as it was found.
\<close>

datatype kind = TOC_ENTRY | ABBREVIATION | UNMATCHED

datatype page_number = Arabic nat | Roman utext

record classified_entry =
  kind :: kind
  label :: utext
  pageNumber :: "page_number option"
  level :: nat
  rawIndentation :: nat

text \<open>
  Modelled from the spec: the source \<^verbatim>\<open>python/toc_formatter.py\<close> is missing.
  RenderConfig (section 4.3), with \<open>leaderChar\<close> defaulting to a
  period and \<open>minLeaderLength\<close> to 3, and RenderedLine (section 3): the label text, the
  leader run and the page-number text.
\<close>

record render_config =
  indentPerLevel :: int
  marginColumn :: int
  leaderChar :: uchar
  minLeaderLength :: int

record rendered_line =
  line_label :: utext
  line_leader :: utext
  line_page :: utext

text \<open>
  Modelled from the spec: the source \<^verbatim>\<open>python/toc_formatter.py\<close> is missing.
  TrackerState (section 3), the last-seen level and the numbering
  context, here the indentation of the predecessor, which the tie-break of section 4.2
  compares with.
\<close>

record tracker_state =
  lastLevel :: nat
  lastIndentation :: nat

datatype engine_error = DocumentParseError | RenderConfigError | IOError

subsection \<open>Roman numerals\<close>

text \<open>
  Modelled from the spec: the source \<^verbatim>\<open>python/toc_formatter.py\<close> is missing.
  \<open>parseRomanNumeral(token) -> optional int\<close> (sections 4.1
  and 9): one or more of I, V, X, L, C, D, M in valid subtractive-pair combination,
  case-insensitive. A token is valid when it is the canonical numeral of its value.
\<close>

definition roman_digit :: "uchar \<Rightarrow> nat option" where
  "roman_digit c =
     (if c = Asc CHR ''I'' then Some 1
      else if c = Asc CHR ''V'' then Some 5
      else if c = Asc CHR ''X'' then Some 10
      else if c = Asc CHR ''L'' then Some 50
      else if c = Asc CHR ''C'' then Some 100
      else if c = Asc CHR ''D'' then Some 500
      else if c = Asc CHR ''M'' then Some 1000
      else None)"

fun roman_sum :: "nat list \<Rightarrow> nat" where
  "roman_sum [] = 0"
| "roman_sum [x] = x"
| "roman_sum (x # y # r) =
     (if x < y then roman_sum (y # r) - x else x + roman_sum (y # r))"

fun to_roman_table :: "(nat \<times> string) list \<Rightarrow> nat \<Rightarrow> utext" where
  "to_roman_table [] n = []"
| "to_roman_table ((v, s) # tbl) n =
     concat (replicate (n div v) (asc s)) @ to_roman_table tbl (n mod v)"

definition to_roman :: "nat \<Rightarrow> utext" where
  "to_roman n =
     to_roman_table
       [(1000, ''M''), (900, ''CM''), (500, ''D''), (400, ''CD''), (100, ''C''), (90, ''XC''),
        (50, ''L''), (40, ''XL''), (10, ''X''), (9, ''IX''), (5, ''V''), (4, ''IV''), (1, ''I'')]
       n"

definition parseRomanNumeral :: "utext \<Rightarrow> nat option" where
  "parseRomanNumeral token =
     (case those (map roman_digit (map to_upper token)) of
        None \<Rightarrow> None
      | Some vs \<Rightarrow>
          let n = roman_sum vs
          in if 0 < n \<and> n < 4000 \<and> to_roman n = map to_upper token then Some n else None)"

datatype letter_case = Upper | Lower | Mixed

definition roman_case :: "utext \<Rightarrow> letter_case" where
  "roman_case token =
     (if list_all is_upper token then Upper
      else if list_all is_lower token then Lower
      else Mixed)"

subsection \<open>Line Classifier\<close>

text \<open>
  Modelled from the spec: the source \<^verbatim>\<open>python/toc_formatter.py\<close> is missing.
  The page-number token of section 4.1, step 2. The token is the run of letters and digits
  at the end of the line (trailing whitespace stripped), optionally in parentheses; it is a
  page number when it is all Arabic digits, read as a decimal number, or a Roman numeral.
\<close>

definition digit_value :: "uchar \<Rightarrow> nat" where
  "digit_value c = (case c of Asc a \<Rightarrow> (of_char a :: nat) - 48 | _ \<Rightarrow> 0)"

definition parse_nat :: "utext \<Rightarrow> nat" where
  "parse_nat t = foldl (\<lambda>acc c. 10 * acc + digit_value c) 0 t"

definition parse_page :: "utext \<Rightarrow> page_number option" where
  "parse_page token =
     (if token \<noteq> [] \<and> list_all is_udigit token then Some (Arabic (parse_nat token))
      else if parseRomanNumeral token \<noteq> None then Some (Roman token)
      else None)"

definition trailing_token :: "utext \<Rightarrow> utext \<times> utext" where
  "trailing_token s = (rev (dropWhile is_alnum (rev s)), rev (takeWhile is_alnum (rev s)))"

definition find_page :: "utext \<Rightarrow> (utext \<times> page_number) option" where
  "find_page line =
     (let s = rstrip line
      in if s \<noteq> [] \<and> last s = Asc CHR '')'' then
           (case trailing_token (butlast s) of
              (front, token) \<Rightarrow>
                if front \<noteq> [] \<and> last front = Asc CHR ''(''
                then map_option (Pair (butlast front)) (parse_page token)
                else None)
         else
           (case trailing_token s of
              (front, token) \<Rightarrow> map_option (Pair front) (parse_page token)))"

text \<open>
  Modelled from the spec: the source \<^verbatim>\<open>python/toc_formatter.py\<close> is missing.
  The cleanup of section 4.1, step 2: "removing all arrow glyphs and any run of 2+
  dot/period characters (with or without intervening spaces)". A run starts at a dot and
  reaches to the last dot that follows through dots and spaces only.
\<close>

definition remove_arrows :: "utext \<Rightarrow> utext" where
  "remove_arrows t = filter (\<lambda>c. c \<noteq> Arrow) t"

definition is_dotsp :: "uchar \<Rightarrow> bool" where
  "is_dotsp c = (is_dot c \<or> is_space c)"

function remove_dot_runs :: "utext \<Rightarrow> utext" where
  "remove_dot_runs [] = []"
| "remove_dot_runs (c # cs) =
     (if is_dot c \<and> list_ex is_dot (takeWhile is_dotsp cs)
      then rev (takeWhile is_space (rev (takeWhile is_dotsp cs)))
             @ remove_dot_runs (dropWhile is_dotsp cs)
      else c # remove_dot_runs cs)"
  by pat_completeness auto
termination
  by (relation "measure length") (auto simp: length_dropWhile_le less_Suc_eq_le)

definition is_punct :: "uchar \<Rightarrow> bool" where
  "is_punct c = (case c of Other n \<Rightarrow> False | _ \<Rightarrow> \<not> is_alnum c)"

text \<open>
  Modelled from the spec: the source \<^verbatim>\<open>python/toc_formatter.py\<close> is missing.
  The abbreviation pattern of section 4.1, step 1:
  \<open>ABBREVIATION<separator>Expansion text\<close>, the separator a colon, a dash or a run of
  several spaces, the abbreviation an all-caps or title-case token of at most 10
  characters, and no page-number-looking token at the end (it is looked for in the
  expansion text, which ends the line).
\<close>

definition is_dash :: "uchar \<Rightarrow> bool" where
  "is_dash c = (c = Asc CHR ''-'' \<or> c = EmDash)"

definition is_sep_char :: "uchar \<Rightarrow> bool" where
  "is_sep_char c = (is_space c \<or> c = Asc CHR '':'' \<or> is_dash c)"

definition valid_abbrev_token :: "utext \<Rightarrow> bool" where
  "valid_abbrev_token t =
     (case t of
        [] \<Rightarrow> False
      | c # cs \<Rightarrow> length t \<le> 10 \<and> is_upper c \<and> (list_all is_upper cs \<or> list_all is_lower cs))"

definition valid_separator :: "utext \<Rightarrow> bool" where
  "valid_separator s = (list_ex (\<lambda>c. c = Asc CHR '':'' \<or> is_dash c) s \<or> 2 \<le> length s)"

definition abbrev_split :: "utext \<Rightarrow> (utext \<times> utext) option" where
  "abbrev_split body =
     (let token = takeWhile (\<lambda>c. \<not> is_sep_char c) body;
          rest = dropWhile (\<lambda>c. \<not> is_sep_char c) body;
          sep = takeWhile is_sep_char rest;
          expansion = dropWhile is_sep_char rest
      in if valid_abbrev_token token \<and> valid_separator sep \<and> expansion \<noteq> []
            \<and> find_page expansion = None
         then Some (token, expansion)
         else None)"

definition abbrev_separator :: utext where
  "abbrev_separator = [space, EmDash, space]"

text \<open>
  The width of the leading whitespace, \<open>rawIndentation\<close>: a space is one column, a tab
  one indentation unit of four columns.
\<close>

definition char_width :: "uchar \<Rightarrow> nat" where
  "char_width c = (if c = tab then 4 else 1)"

definition leading_width :: "utext \<Rightarrow> nat" where
  "leading_width t = sum_list (map char_width (takeWhile is_space t))"

text \<open>
  Modelled from the spec: the source \<^verbatim>\<open>python/toc_formatter.py\<close> is missing.
  \<open>classify(paragraph, priorLevel) -> ClassifiedEntry\<close>
  (section 4.1), the ordered policy: abbreviation definition, then TOC entry, otherwise
  UNMATCHED; a label that is empty or purely punctuation is UNMATCHED; the leading
  indentation is kept whatever the outcome.
\<close>

definition classify :: "raw_paragraph \<Rightarrow> nat \<Rightarrow> classified_entry" where
  "classify p priorLevel =
     (let line = raw_text p;
          indentation = leading_width line;
          body = trim line;
          unmatched = \<lparr>kind = UNMATCHED, label = body, pageNumber = None,
                       level = priorLevel, rawIndentation = indentation\<rparr>
      in case abbrev_split body of
           Some (token, expansion) \<Rightarrow>
             \<lparr>kind = ABBREVIATION, label = token @ abbrev_separator @ expansion,
              pageNumber = None, level = priorLevel, rawIndentation = indentation\<rparr>
         | None \<Rightarrow>
             (case find_page body of
                None \<Rightarrow> unmatched
              | Some (front, page) \<Rightarrow>
                  let lbl = trim (remove_dot_runs (remove_arrows front))
                  in if lbl = [] \<or> list_all is_punct lbl then unmatched
                     else \<lparr>kind = TOC_ENTRY, label = lbl, pageNumber = Some page,
                           level = priorLevel, rawIndentation = indentation\<rparr>))"

subsection \<open>Hierarchy Tracker\<close>

text \<open>
  Modelled from the spec: the source \<^verbatim>\<open>python/toc_formatter.py\<close> is missing.
  \<open>inferLevel(entry, state) -> (level, newState)\<close> (section 4.2).
  One unit of indentation (four columns, as in the scenario of section 8) is one level,
  clamped to \<open>maxLevel\<close> = 5; without indentation the level is the number of separators
  in the numbering prefix of the label; a line indented strictly more than its predecessor
  whose level would not exceed the predecessor's is one level deeper than it.
\<close>

definition maxLevel :: nat where
  "maxLevel = 5"

definition indentUnit :: nat where
  "indentUnit = 4"

fun count_separators :: "utext \<Rightarrow> nat" where
  "count_separators [] = 0"
| "count_separators [c] = 0"
| "count_separators (c # d # cs) =
     (if c = Asc CHR ''.'' \<and> is_udigit d then Suc (count_separators (d # cs))
      else count_separators (d # cs))"

definition numbering_level :: "utext \<Rightarrow> nat" where
  "numbering_level lbl =
     (case lbl of
        c # d # cs \<Rightarrow>
          if is_lower c \<and> d = Asc CHR '')'' then 1
          else if is_udigit c then
            count_separators (takeWhile (\<lambda>x. is_udigit x \<or> x = Asc CHR ''.'') lbl)
          else 0
      | _ \<Rightarrow> 0)"

definition inferLevel :: "classified_entry \<Rightarrow> tracker_state \<Rightarrow> nat \<times> tracker_state" where
  "inferLevel entry state =
     (let quantized = min maxLevel (rawIndentation entry div indentUnit);
          base = (if rawIndentation entry = 0 then min maxLevel (numbering_level (label entry))
                  else quantized);
          lvl = (if lastIndentation state < rawIndentation entry \<and> base \<le> lastLevel state
                 then min maxLevel (Suc (lastLevel state))
                 else base)
      in (lvl, \<lparr>lastLevel = lvl, lastIndentation = rawIndentation entry\<rparr>))"

subsection \<open>Dot-Leader Renderer\<close>

text \<open>
  Modelled from the spec: the source \<^verbatim>\<open>python/toc_formatter.py\<close> is missing.
  \<open>render(entry, level, config) -> RenderedLine\<close> (section 4.3)
  with fixed-width fill characters: the label prefixed with \<open>indentPerLevel * level\<close>
  columns, a leader of \<open>max(minLeaderLength, marginColumn - indentWidth - labelWidth -
  pageNumberWidth)\<close> fill characters, and the page number; a Roman page number verbatim
  unless its case is mixed, then in upper case; an abbreviation without leader and page
  number.
\<close>

definition page_text :: "page_number \<Rightarrow> utext" where
  "page_text pn =
     (case pn of
        Arabic n \<Rightarrow> asc (show_nat n)
      | Roman token \<Rightarrow> if roman_case token = Mixed then map to_upper token else token)"

definition page_value :: "page_number \<Rightarrow> nat option" where
  "page_value pn = (case pn of Arabic n \<Rightarrow> Some n | Roman token \<Rightarrow> parseRomanNumeral token)"

definition leaderLength :: "render_config \<Rightarrow> nat \<Rightarrow> nat \<Rightarrow> nat \<Rightarrow> int" where
  "leaderLength config indentWidth labelWidth pageNumberWidth =
     max (minLeaderLength config)
         (marginColumn config - int indentWidth - int labelWidth - int pageNumberWidth)"

definition render :: "classified_entry \<Rightarrow> nat \<Rightarrow> render_config \<Rightarrow> rendered_line" where
  "render entry lvl config =
     (let indent = replicate (nat (indentPerLevel config * int lvl)) space
      in case kind entry of
           ABBREVIATION \<Rightarrow>
             \<lparr>line_label = indent @ label entry, line_leader = [], line_page = []\<rparr>
         | _ \<Rightarrow>
             let page = (case pageNumber entry of None \<Rightarrow> [] | Some pn \<Rightarrow> page_text pn);
                 n = leaderLength config (length indent) (length (label entry)) (length page)
             in \<lparr>line_label = indent @ label entry,
                 line_leader = replicate (nat n) (leaderChar config),
                 line_page = page\<rparr>)"

definition line_text :: "rendered_line \<Rightarrow> utext" where
  "line_text l = line_label l @ line_leader l @ line_page l"

text \<open>The column at which the page number of a rendered line ends.\<close>

definition right_edge :: "rendered_line \<Rightarrow> nat" where
  "right_edge l = length (line_text l)"

subsection \<open>Document Rewriter\<close>

text \<open>
  Modelled from the spec: the source \<^verbatim>\<open>python/toc_formatter.py\<close> is missing.
  \<open>rewrite(document) -> document'\<close> (section 4.4): one forward
  pass, the tracker state fresh at its start; an UNMATCHED paragraph is copied, any other
  has its run content and its paragraph-level formatting (indentation, tab stops) replaced
  by the rendered line. An invalid configuration value is a \<open>RenderConfigError\<close> at the
  start of the pass (section 7).
\<close>

definition apply_rendered :: "raw_paragraph \<Rightarrow> rendered_line \<Rightarrow> raw_paragraph" where
  "apply_rendered p l =
     p\<lparr>runs := filter (\<lambda>r. run_text r \<noteq> [])
                 [\<lparr>run_text = line_label l, run_style = []\<rparr>,
                  \<lparr>run_text = line_leader l, run_style = []\<rparr>,
                  \<lparr>run_text = line_page l, run_style = []\<rparr>],
       para_indent := 0, tab_stops := []\<rparr>"

fun rewrite_paragraphs :: "render_config \<Rightarrow> tracker_state \<Rightarrow> document \<Rightarrow> document" where
  "rewrite_paragraphs config state [] = []"
| "rewrite_paragraphs config state (p # ps) =
     (let entry = classify p (lastLevel state)
      in case kind entry of
           UNMATCHED \<Rightarrow> p # rewrite_paragraphs config state ps
         | _ \<Rightarrow>
             (case inferLevel entry state of
                (lvl, state') \<Rightarrow>
                  apply_rendered p (render entry lvl config)
                    # rewrite_paragraphs config state' ps))"

definition initial_state :: tracker_state where
  "initial_state = \<lparr>lastLevel = 0, lastIndentation = 0\<rparr>"

definition valid_config :: "render_config \<Rightarrow> bool" where
  "valid_config config =
     (0 \<le> indentPerLevel config \<and> 0 \<le> marginColumn config \<and> 0 \<le> minLeaderLength config)"

definition rewrite_pass :: "render_config \<Rightarrow> document \<Rightarrow> document" where
  "rewrite_pass config d = rewrite_paragraphs config initial_state d"

definition rewrite :: "render_config \<Rightarrow> document \<Rightarrow> engine_error + document" where
  "rewrite config d =
     (if \<not> valid_config config then Inl RenderConfigError else Inr (rewrite_pass config d))"

text \<open>
  Modelled from the spec: the source \<^verbatim>\<open>python/toc_formatter.py\<close> is missing.
  The tracker state the pass has reached when it has read a prefix of the document
  (sections 3 and 4.2): fresh at the start, changed by the tracker only, which is invoked
  for the TOC_ENTRY and ABBREVIATION kinds only.
\<close>

fun tracker_after :: "tracker_state \<Rightarrow> document \<Rightarrow> tracker_state" where
  "tracker_after state [] = state"
| "tracker_after state (p # ps) =
     (let entry = classify p (lastLevel state)
      in case kind entry of
           UNMATCHED \<Rightarrow> tracker_after state ps
         | _ \<Rightarrow> tracker_after (snd (inferLevel entry state)) ps)"

text \<open>A paragraph of plain text.\<close>

definition plain :: "utext \<Rightarrow> raw_paragraph" where
  "plain t = \<lparr>runs = [\<lparr>run_text = t, run_style = []\<rparr>], style_name = [],
              para_indent = 0, tab_stops = [], page_break = False\<rparr>"

subsection \<open>Example inputs\<close>

text \<open>
  The configuration and the documents at which the properties below are evaluated.
\<close>

definition example_config :: render_config where
  "example_config =
     \<lparr>indentPerLevel = 4, marginColumn = 20, leaderChar = Asc CHR ''.'', minLeaderLength = 3\<rparr>"

definition short_line :: raw_paragraph where
  "short_line = plain (asc ''Intro 5'')"

definition long_line :: raw_paragraph where
  "long_line = plain (asc ''A very long label that will not fit 7'')"

definition narrow_document :: document where
  "narrow_document = [short_line, long_line]"

definition two_entries :: document where
  "two_entries =
     [plain (asc ''Introduction''), plain (asc ''Methods 9''), plain (asc ''    Sampling 12'')]"

definition roman_line :: "utext \<Rightarrow> raw_paragraph" where
  "roman_line token = plain (asc ''Preface '' @ token)"

section \<open>Properties of the processing handler\<close>

lemma fold_data:
  "list_all is_data evs \<Longrightarrow>
   foldl (on_event ip ofn) st evs =
     st\<lparr>output_acc := output_acc st @ stdout_of evs, error_acc := error_acc st @ stderr_of evs\<rparr>"
proof (induction evs arbitrary: st)
  case Nil
  then show ?case by simp
next
  case (Cons e es)
  then show ?case by (cases e) simp_all
qed

lemma sent_on_close:
  "sent (on_close ip ofn code st) =
     sent st @ [if code = Some 0
                then (200, [(''success'', JBool True), (''outputFile'', JStr ofn),
                            (''logs'', JStr (output_acc st))])
                else (500, [(''error'', JStr (if error_acc st = [] then ''Processing failed''
                                               else error_acc st)),
                            (''logs'', JStr (output_acc st))])]"
  by (simp add: on_close_def send_def Let_def split: sum.splits)

lemma sent_on_error:
  "sent (on_error st) =
     sent st @ [(500, [(''error'',
                        JStr ''Failed to start processing. Make sure Python is installed.'')])]"
  by (simp add: on_error_def send_def)

text \<open>
  Past its guards (a POST, a non-empty string as filename, an existing input file) the
  handler is the run of the callbacks over the events of the child process.
\<close>

lemma process_handler_runs:
  assumes "pmethod req = ''POST''"
    and "map_of (pbody req) ''filename'' = Some (JStr fname)"
    and "fname \<noteq> []"
    and "existsSync fs (path_join [cwd, ''uploads'', fname])"
  shows "process_handler cwd fs req evs =
     (let inputPath = path_join [cwd, ''uploads'', fname];
          outputDir = path_join [cwd, ''outputs''];
          outputFilename = ''processed_'' @ fname;
          st = foldl (on_event inputPath outputFilename)
                 \<lparr>output_acc = [], error_acc = [], sent = [], resolved = False,
                  pfs = (if \<not> existsSync fs outputDir then mkdirSync fs outputDir else fs)\<rparr> evs
      in \<lparr>responses = sent st,
          spawned = [(''python3'', [path_join [cwd, ''python'', ''toc_formatter.py''], inputPath,
                      ''-o'', path_join [outputDir, outputFilename]])],
          fs_after = pfs st, threw = False, ended = resolved st\<rparr>)"
  using assms by (simp add: process_handler_def Let_def)

text \<open>
  Claim C3. Whenever the engine process, after any output on its two streams, closes with
  an exit code other than 0 (or with none, killed by a signal), the client receives the
  status 500 with, as \<^verbatim>\<open>error\<close>, everything the engine wrote to stderr (or the fixed
  text \<^verbatim>\<open>Processing failed\<close> when it wrote nothing) and, as \<^verbatim>\<open>logs\<close>, everything
  it wrote to stdout before it failed.
\<close>

theorem nonzero_exit_surfaces_error_and_log:
  assumes "pmethod req = ''POST''"
    and "map_of (pbody req) ''filename'' = Some (JStr fname)"
    and "fname \<noteq> []"
    and "existsSync fs (path_join [cwd, ''uploads'', fname])"
    and "list_all is_data evs"
    and "code \<noteq> Some 0"
  shows "client_response (process_handler cwd fs req (evs @ [Close code])) =
           Some (500, [(''error'', JStr (if stderr_of evs = [] then ''Processing failed''
                                         else stderr_of evs)),
                       (''logs'', JStr (stdout_of evs))])"
  using assms(5,6)
  by (simp add: process_handler_runs [OF assms(1-4)] Let_def client_response_def
      fold_data sent_on_close)

theorem nonzero_exit_surfaces_error_and_log_witness:
  "client_response
     (process_handler ''/app'' [''/app/uploads/17_a.docx'' \<mapsto> File ''PK'']
        \<lparr>pmethod = ''POST'', pbody = [(''filename'', JStr ''17_a.docx'')]\<rparr>
        [StdoutData ''Found 3 entries'', StderrData ''Traceback: '', StdoutData ''; done'',
         StderrData ''bad zip'', Close (Some 1)]) =
   Some (500, [(''error'', JStr ''Traceback: bad zip''),
               (''logs'', JStr ''Found 3 entries; done'')])"
  using nonzero_exit_surfaces_error_and_log
    [of "\<lparr>pmethod = ''POST'', pbody = [(''filename'', JStr ''17_a.docx'')]\<rparr>" "''17_a.docx''"
        "[''/app/uploads/17_a.docx'' \<mapsto> File ''PK'']" "''/app''"
        "[StdoutData ''Found 3 entries'', StderrData ''Traceback: '', StdoutData ''; done'',
          StderrData ''bad zip'']" "Some 1"]
  by (simp add: existsSync_def path_join_def normalize_def)

text \<open>
  Claim C1, as the code has it. For every POST request whose body carries a non-empty
  string \<^verbatim>\<open>filename\<close> and whose input file exists, whatever else the body holds,
  the handler spawns \<^verbatim>\<open>python3\<close> once, on the script, the input path, \<^verbatim>\<open>-o\<close> and
  the output path and nothing more. When the process closes, the client receives 200 with
  \<^verbatim>\<open>success\<close>, the output file name and the stdout text as \<^verbatim>\<open>logs\<close>, or 500 with
  the error text and the stdout text as \<^verbatim>\<open>logs\<close>; when the process cannot be started,
  the client receives 500 with an error text only.
\<close>

theorem process_invocation_and_response:
  assumes "pmethod req = ''POST''"
    and "map_of (pbody req) ''filename'' = Some (JStr fname)"
    and "fname \<noteq> []"
    and "existsSync fs (path_join [cwd, ''uploads'', fname])"
    and "list_all is_data evs"
  shows "spawned (process_handler cwd fs req (evs @ [final])) =
           [(''python3'', [path_join [cwd, ''python'', ''toc_formatter.py''],
                           path_join [cwd, ''uploads'', fname], ''-o'',
                           path_join [path_join [cwd, ''outputs''], ''processed_'' @ fname]])]
       \<and> client_response (process_handler cwd fs req (evs @ [Close code])) =
           Some (if code = Some 0
                 then (200, [(''success'', JBool True),
                             (''outputFile'', JStr (''processed_'' @ fname)),
                             (''logs'', JStr (stdout_of evs))])
                 else (500, [(''error'', JStr (if stderr_of evs = [] then ''Processing failed''
                                               else stderr_of evs)),
                             (''logs'', JStr (stdout_of evs))]))
       \<and> client_response (process_handler cwd fs req (evs @ [SpawnError])) =
           Some (500, [(''error'',
                        JStr ''Failed to start processing. Make sure Python is installed.'')])"
  using assms(5)
  by (simp add: process_handler_runs [OF assms(1-4)] Let_def client_response_def
      fold_data sent_on_close sent_on_error)

theorem process_invocation_and_response_witness:
  "spawned (process_handler ''/app'' [''/app/uploads/17_a.docx'' \<mapsto> File ''PK'']
        \<lparr>pmethod = ''POST'',
         pbody = [(''filename'', JStr ''17_a.docx''), (''marginColumn'', JNum 80)]\<rparr>
        [StdoutData ''Found 3 entries'', Close (Some 0)]) =
     [(''python3'', [''/app/python/toc_formatter.py'', ''/app/uploads/17_a.docx'', ''-o'',
                     ''/app/outputs/processed_17_a.docx''])]
   \<and> client_response (process_handler ''/app'' [''/app/uploads/17_a.docx'' \<mapsto> File ''PK'']
        \<lparr>pmethod = ''POST'',
         pbody = [(''filename'', JStr ''17_a.docx''), (''marginColumn'', JNum 80)]\<rparr>
        [StdoutData ''Found 3 entries'', Close (Some 0)]) =
     Some (200, [(''success'', JBool True), (''outputFile'', JStr ''processed_17_a.docx''),
                 (''logs'', JStr ''Found 3 entries'')])"
  using process_invocation_and_response
    [of "\<lparr>pmethod = ''POST'',
          pbody = [(''filename'', JStr ''17_a.docx''), (''marginColumn'', JNum 80)]\<rparr>"
        "''17_a.docx''" "[''/app/uploads/17_a.docx'' \<mapsto> File ''PK'']" "''/app''"
        "[StdoutData ''Found 3 entries'']" "Close (Some 0)" "Some 0"]
  by (simp add: existsSync_def path_join_def normalize_def)

text \<open>
  Claim C1 as stated fails: a request that supplies an override (\<^verbatim>\<open>marginColumn\<close>) next
  to the filename leads to the same four arguments, and when the engine cannot be started
  the response has no \<^verbatim>\<open>logs\<close> field.
\<close>

theorem process_response_without_logs_counterexample:
  "client_response
     (process_handler ''/app'' [''/app/uploads/17_a.docx'' \<mapsto> File ''PK'']
        \<lparr>pmethod = ''POST'',
         pbody = [(''filename'', JStr ''17_a.docx''), (''marginColumn'', JNum 80)]\<rparr>
        [SpawnError]) =
     Some (500, [(''error'',
                  JStr ''Failed to start processing. Make sure Python is installed.'')])
   \<and> map_of [(''error'',
                JStr ''Failed to start processing. Make sure Python is installed.'')] ''logs''
       = None
   \<and> spawned
       (process_handler ''/app'' [''/app/uploads/17_a.docx'' \<mapsto> File ''PK'']
          \<lparr>pmethod = ''POST'',
           pbody = [(''filename'', JStr ''17_a.docx''), (''marginColumn'', JNum 80)]\<rparr>
          [SpawnError]) =
     [(''python3'', [''/app/python/toc_formatter.py'', ''/app/uploads/17_a.docx'', ''-o'',
                     ''/app/outputs/processed_17_a.docx''])]"
  by (simp add: process_handler_def client_response_def existsSync_def mkdirSync_def
      path_join_def normalize_def on_error_def send_def Let_def)

text \<open>
  The callbacks leave the input file as it is or delete it; the \<^verbatim>\<open>'close'\<close> callback
  deletes it, and does nothing to the disk when it is gone already.
\<close>

lemma pfs_on_event:
  assumes "pfs st ip = None \<or> pfs st ip = Some (File content)"
  shows "pfs (on_event ip ofn st e) ip = None \<or> pfs (on_event ip ofn st e) ip = Some (File content)"
  using assms
  by (cases e) (auto simp: on_close_def on_error_def send_def unlinkSync_def Let_def
      split: option.splits node.splits)

lemma pfs_foldl_on_event:
  assumes "pfs st ip = None \<or> pfs st ip = Some (File content)"
  shows "pfs (foldl (on_event ip ofn) st evs) ip = None
       \<or> pfs (foldl (on_event ip ofn) st evs) ip = Some (File content)"
  using assms
proof (induction evs arbitrary: st)
  case Nil
  then show ?case by simp
next
  case (Cons e es)
  from pfs_on_event [OF Cons.prems] show ?case by (simp add: Cons.IH)
qed

lemma pfs_on_close:
  assumes "pfs st ip = None \<or> pfs st ip = Some (File content)"
  shows "pfs (on_close ip ofn code st) ip = None"
  using assms
  by (auto simp: on_close_def send_def unlinkSync_def Let_def)

text \<open>
  Claim C2. A child process ends with the \<^verbatim>\<open>'close'\<close> event, also when it could not
  be started and \<^verbatim>\<open>'error'\<close> came first. For every request past the guards of the
  handler whose input path names a file, and whatever events come before the close, with
  exit code 0 or any other, the input file is gone from the disk and the call has ended
  once the close callback has run.
\<close>

theorem input_file_released:
  assumes "pmethod req = ''POST''"
    and "map_of (pbody req) ''filename'' = Some (JStr fname)"
    and "fname \<noteq> []"
    and "fs (path_join [cwd, ''uploads'', fname]) = Some (File content)"
  shows "fs_after (process_handler cwd fs req (evs @ [Close code]))
           (path_join [cwd, ''uploads'', fname]) = None
       \<and> ended (process_handler cwd fs req (evs @ [Close code]))"
proof -
  let ?ip = "path_join [cwd, ''uploads'', fname]"
  let ?od = "path_join [cwd, ''outputs'']"
  let ?fs1 = "if \<not> existsSync fs ?od then mkdirSync fs ?od else fs"
  let ?st0 = "\<lparr>output_acc = [], error_acc = [], sent = [], resolved = False, pfs = ?fs1\<rparr>"
  have ex: "existsSync fs ?ip" using assms(4) by (simp add: existsSync_def)
  have "?fs1 ?ip = Some (File content)"
    using assms(4) by (auto simp: existsSync_def mkdirSync_def)
  then have "pfs ?st0 ?ip = None \<or> pfs ?st0 ?ip = Some (File content)" by simp
  from pfs_on_close [OF pfs_foldl_on_event [OF this]]
  have "pfs (on_close ?ip (''processed_'' @ fname) code
               (foldl (on_event ?ip (''processed_'' @ fname)) ?st0 evs)) ?ip = None" .
  moreover have "resolved (on_close ?ip (''processed_'' @ fname) code
               (foldl (on_event ?ip (''processed_'' @ fname)) ?st0 evs))"
    by (simp add: on_close_def Let_def)
  ultimately show ?thesis
    by (simp add: process_handler_runs [OF assms(1-3) ex] Let_def)
qed

theorem input_file_released_witness:
  "fs_after
     (process_handler ''/app'' [''/app/uploads/17_a.docx'' \<mapsto> File ''PK'']
        \<lparr>pmethod = ''POST'', pbody = [(''filename'', JStr ''17_a.docx'')]\<rparr>
        [StdoutData ''Found 3 entries'', Close (Some 0)]) ''/app/uploads/17_a.docx'' = None
   \<and> fs_after
     (process_handler ''/app'' [''/app/uploads/17_a.docx'' \<mapsto> File ''PK'']
        \<lparr>pmethod = ''POST'', pbody = [(''filename'', JStr ''17_a.docx'')]\<rparr>
        [StderrData ''bad zip'', Close (Some 1)]) ''/app/uploads/17_a.docx'' = None
   \<and> fs_after
     (process_handler ''/app'' [''/app/uploads/17_a.docx'' \<mapsto> File ''PK'']
        \<lparr>pmethod = ''POST'', pbody = [(''filename'', JStr ''17_a.docx'')]\<rparr>
        [SpawnError, Close (Some (- 2))]) ''/app/uploads/17_a.docx'' = None"
proof -
  let ?req = "\<lparr>pmethod = ''POST'', pbody = [(''filename'', JStr ''17_a.docx'')]\<rparr>"
  let ?fs = "[''/app/uploads/17_a.docx'' \<mapsto> File ''PK'']"
  have p: "path_join [''/app'', ''uploads'', ''17_a.docx''] = ''/app/uploads/17_a.docx''"
    by (simp add: path_join_def normalize_def)
  show ?thesis
    using input_file_released [of ?req "''17_a.docx''" ?fs "''/app''" "''PK''"
        "[StdoutData ''Found 3 entries'']" "Some 0"]
      input_file_released [of ?req "''17_a.docx''" ?fs "''/app''" "''PK''"
        "[StderrData ''bad zip'']" "Some 1"]
      input_file_released [of ?req "''17_a.docx''" ?fs "''/app''" "''PK''"
        "[SpawnError]" "Some (- 2)"]
    by (simp add: p)
qed

section \<open>Properties of the download and upload handlers\<close>

text \<open>
  Claim C4 at the query \<^verbatim>\<open>file=../package.json\<close>: the handler reads
  \<^verbatim>\<open>/app/package.json\<close>, which is not inside \<^verbatim>\<open>/app/outputs\<close>, sends its content as
  the attachment, and deletes it when the clean-up timer fires.
\<close>

theorem download_escapes_outputs:
  "dread (download_handler ''/app'' [''/app/package.json'' \<mapsto> File ''{}''] ''GET''
            (QStr ''../package.json'')) = [''/app/package.json'']
   \<and> \<not> inside_dir ''/app/outputs'' ''/app/package.json''
   \<and> dsent (download_handler ''/app'' [''/app/package.json'' \<mapsto> File ''{}''] ''GET''
            (QStr ''../package.json'')) =
       [DFile [(''Content-Disposition'',
                ''attachment; filename='' @ [CHR 0x22] @ ''../package.json'' @ [CHR 0x22]),
               (''Content-Type'',
                ''application/vnd.openxmlformats-officedocument.wordprocessingml.document''),
               (''Content-Length'', ''2'')] ''{}'']
   \<and> dfs_after (download_handler ''/app'' [''/app/package.json'' \<mapsto> File ''{}''] ''GET''
            (QStr ''../package.json'')) ''/app/package.json'' = None"
  by (simp add: download_handler_def existsSync_def readFileSync_def unlinkSync_def
      path_join_def normalize_def inside_dir_def startsWith_def original_name_def
      strip_digits_underscore_def is_digit_def show_nat.simps [of "Suc (Suc 0)"] digit_char_def
      Let_def)

text \<open>
  A name with a line feed is refused by \<^verbatim>\<open>res.setHeader\<close>: the handler answers 500 and
  starts no clean-up timer, so the file stays.
\<close>

lemma download_refuses_control_character:
  "dsent (download_handler ''/app''
            [''/app/outputs/processed_17_a'' @ [CHR 0x0A] @ ''.docx'' \<mapsto> File ''PK'']
            ''GET'' (QStr (''processed_17_a'' @ [CHR 0x0A] @ ''.docx'')))
     = [DJson 500 [(''error'', JStr ''Failed to download file'')]]
   \<and> dfs_after (download_handler ''/app''
            [''/app/outputs/processed_17_a'' @ [CHR 0x0A] @ ''.docx'' \<mapsto> File ''PK'']
            ''GET'' (QStr (''processed_17_a'' @ [CHR 0x0A] @ ''.docx'')))
         (''/app/outputs/processed_17_a'' @ [CHR 0x0A] @ ''.docx'') = Some (File ''PK'')"
  by code_simp

lemma show_nat_digits: "list_all is_digit (show_nat n)"
proof (induction n rule: show_nat.induct)
  case (1 n)
  have d: "is_digit (digit_char k)" if "k < 10" for k
  proof -
    from that have "k \<in> {0,1,2,3,4,5,6,7,8,9}" by auto
    then show ?thesis by (auto simp: is_digit_def digit_char_def)
  qed
  show ?case
  proof (cases "n < 10")
    case True
    then show ?thesis by (subst show_nat.simps) (simp add: d)
  next
    case False
    with 1 show ?thesis by (subst show_nat.simps) (simp add: d)
  qed
qed

lemma show_nat_nonempty: "show_nat n \<noteq> []"
  by (subst show_nat.simps) simp

lemma replace_first_prefix: "pat \<noteq> [] \<Longrightarrow> replace_first pat rep (pat @ s) = rep @ s"
  by (cases pat) (simp_all add: startsWith_def)

lemma strip_digits_underscore_digits:
  assumes "list_all is_digit ds" and "ds \<noteq> []"
  shows "strip_digits_underscore (ds @ CHR ''_'' # rest) = rest"
proof -
  have tw: "takeWhile is_digit (ds @ CHR ''_'' # rest) = ds"
    using assms(1) by (simp add: takeWhile_append2 list_all_iff is_digit_def)
  obtain k where k: "length ds = Suc k" using assms(2) by (cases ds) auto
  have m: "match_digits_underscore (Suc k) (ds @ CHR ''_'' # rest) = Some (Suc (Suc k))"
    using k by (simp add: nth_append)
  show ?thesis
    unfolding strip_digits_underscore_def tw k m using k by simp
qed

text \<open>
  Claim C5. For every original file name and every timestamp, the attachment name that the
  download handler computes from \<^verbatim>\<open>processed_\<close> followed by the upload handler's stored
  name (the timestamp, an underscore, the original name) is the original name.
\<close>

theorem download_name_roundtrip:
  "original_name (''processed_'' @ upload_filename ts orig) = orig"
proof -
  have "replace_first ''processed_'' [] (''processed_'' @ upload_filename ts orig)
          = upload_filename ts orig"
    using replace_first_prefix [of "''processed_''" "[]" "upload_filename ts orig"] by simp
  moreover have "strip_digits_underscore (upload_filename ts orig) = orig"
    unfolding upload_filename_def
    using strip_digits_underscore_digits [OF show_nat_digits show_nat_nonempty] by simp
  ultimately show ?thesis by (simp only: original_name_def)
qed

text \<open>
  What the upload handler does with the first file of the field \<^verbatim>\<open>file\<close>: it deletes a
  file without a \<^verbatim>\<open>.docx\<close> name and answers 400; it renames a \<^verbatim>\<open>.docx\<close> file to the
  timestamp, an underscore and its original name, and returns that name.
\<close>

lemma upload_rejects_non_docx:
  assumes "parse (if \<not> existsSync fs (path_join [cwd, ''uploads''])
                  then mkdirSync fs (path_join [cwd, ''uploads'']) else fs)
             = (Parsed ff, fs2)"
    and "first_file ff = Some file"
    and "\<not> has_docx_name file"
    and "fs2 (filepath file) = Some (File content)"
  shows "upload_handler cwd parse now fs ''POST'' =
           ((400, [(''error'', JStr ''Only .docx files are allowed'')]),
            fs2(filepath file := None))"
  using assms by (simp add: upload_handler_def Let_def unlinkSync_def)

lemma upload_renames_docx:
  assumes "parse (if \<not> existsSync fs (path_join [cwd, ''uploads''])
                  then mkdirSync fs (path_join [cwd, ''uploads'']) else fs)
             = (Parsed ff, fs2)"
    and "first_file ff = Some file"
    and "originalFilename file = Some orig"
    and "endsWith orig ''.docx''"
    and "fs2 (filepath file) = Some node"
    and "newPath = path_join [path_join [cwd, ''uploads''], show_nat now @ ''_'' @ orig]"
    and "fs2 (dirname newPath) = Some Dir"
    and "fs2 newPath \<noteq> Some Dir"
  shows "upload_handler cwd parse now fs ''POST'' =
           ((200, [(''success'', JBool True),
                   (''filename'', JStr (show_nat now @ ''_'' @ orig)),
                   (''originalName'', JStr orig)]),
            (fs2(filepath file := None))(newPath \<mapsto> node))"
  using assms
  by (simp add: upload_handler_def Let_def renameSync_def has_docx_name_def upload_filename_def)

text \<open>
  When the directory of the new path is missing, as with a slash in the original name, the
  rename raises: the handler answers 500 and the temporary file stays where it is.
\<close>

lemma upload_rename_fails:
  assumes "parse (if \<not> existsSync fs (path_join [cwd, ''uploads''])
                  then mkdirSync fs (path_join [cwd, ''uploads'']) else fs)
             = (Parsed ff, fs2)"
    and "first_file ff = Some file"
    and "originalFilename file = Some orig"
    and "endsWith orig ''.docx''"
    and "fs2 (dirname (path_join [path_join [cwd, ''uploads''], show_nat now @ ''_'' @ orig]))
           = None"
  shows "upload_handler cwd parse now fs ''POST'' =
           ((500, [(''error'', JStr ''Upload failed'')]), fs2)"
  using assms
  by (simp add: upload_handler_def Let_def renameSync_def has_docx_name_def upload_filename_def
      split: option.splits)

text \<open>
  Claim C6 at an upload of two parts under the field \<^verbatim>\<open>file\<close>, \<^verbatim>\<open>a.docx\<close> and
  \<^verbatim>\<open>b.exe\<close>: the handler renames the first and answers 200; the temporary file of the
  second stays in \<^verbatim>\<open>uploads\<close>.
\<close>

theorem upload_leaves_second_file:
  "fst (upload_handler ''/app''
     (\<lambda>fs. (Parsed (FArray [\<lparr>filepath = ''/app/uploads/t1.docx'',
                               originalFilename = Some ''a.docx''\<rparr>,
                              \<lparr>filepath = ''/app/uploads/t2.exe'',
                               originalFilename = Some ''b.exe''\<rparr>]),
             fs(''/app/uploads/t1.docx'' \<mapsto> File ''A'', ''/app/uploads/t2.exe'' \<mapsto> File ''B'')))
     17 [''/app/uploads'' \<mapsto> Dir] ''POST'') =
   (200, [(''success'', JBool True), (''filename'', JStr ''17_a.docx''),
           (''originalName'', JStr ''a.docx'')])
  \<and> snd (upload_handler ''/app''
     (\<lambda>fs. (Parsed (FArray [\<lparr>filepath = ''/app/uploads/t1.docx'',
                               originalFilename = Some ''a.docx''\<rparr>,
                              \<lparr>filepath = ''/app/uploads/t2.exe'',
                               originalFilename = Some ''b.exe''\<rparr>]),
             fs(''/app/uploads/t1.docx'' \<mapsto> File ''A'', ''/app/uploads/t2.exe'' \<mapsto> File ''B'')))
     17 [''/app/uploads'' \<mapsto> Dir] ''POST'') ''/app/uploads/t2.exe'' = Some (File ''B'')"
  by code_simp

section \<open>Properties of the rewriting engine\<close>

lemma classify_prior: "classify p n = (classify p 0)\<lparr>level := n\<rparr>"
  by (simp add: classify_def Let_def split: option.splits prod.splits)

lemma kind_classify_prior: "kind (classify p n) = kind (classify p m)"
  by (simp add: classify_def Let_def split: option.splits prod.splits)

lemma length_rewrite_paragraphs: "length (rewrite_paragraphs config st d) = length d"
  by (induction d arbitrary: st) (simp_all add: Let_def split: kind.splits prod.splits)

lemma rewrite_paragraphs_nth_exact:
  "i < length d \<Longrightarrow>
   rewrite_paragraphs config st d ! i =
     (let state = tracker_after st (take i d);
          entry = classify (d ! i) (lastLevel state)
      in case kind entry of
           UNMATCHED \<Rightarrow> d ! i
         | _ \<Rightarrow> apply_rendered (d ! i)
                  (render entry (fst (inferLevel entry state)) config))"
proof (induction d arbitrary: st i)
  case Nil
  then show ?case by simp
next
  case (Cons p ps)
  show ?case
  proof (cases i)
    case 0
    then show ?thesis
      by (cases "kind (classify p (lastLevel st))")
        (simp_all add: Let_def split: prod.splits)
  next
    case (Suc j)
    with Cons.prems have j: "j < length ps" by simp
    let ?e = "classify p (lastLevel st)"
    obtain lvl st' where il: "inferLevel ?e st = (lvl, st')" by (cases "inferLevel ?e st")
    have nth: "(p # ps) ! Suc j = ps ! j" by simp
    show ?thesis
    proof (cases "kind ?e = UNMATCHED")
      case True
      then have "rewrite_paragraphs config st (p # ps) ! Suc j
                   = rewrite_paragraphs config st ps ! j"
        by (simp add: Let_def)
      moreover have "tracker_after st (take (Suc j) (p # ps)) = tracker_after st (take j ps)"
        using True by (simp add: Let_def)
      ultimately show ?thesis unfolding Suc nth using Cons.IH [OF j, of st] by simp
    next
      case False
      then have "rewrite_paragraphs config st (p # ps) ! Suc j
                   = rewrite_paragraphs config st' ps ! j"
        using il by (cases "kind ?e") (simp_all add: Let_def)
      moreover have "tracker_after st (take (Suc j) (p # ps)) = tracker_after st' (take j ps)"
        using False il by (cases "kind ?e") (simp_all add: Let_def)
      ultimately show ?thesis unfolding Suc nth using Cons.IH [OF j, of st'] by simp
    qed
  qed
qed

text \<open>
  Claim C7. Under a valid configuration the pass returns, for every document, a document
  with as many paragraphs as it read, and the paragraph at each position comes from the
  input paragraph at that position: it is that paragraph itself when it is classified
  UNMATCHED, and otherwise that paragraph with its content replaced by the rendering of
  its own entry, at the level the tracker infers for it from the paragraphs before it.
\<close>

theorem rewrite_total_order_preserving:
  assumes "valid_config config"
  shows "\<exists>out. rewrite config d = Inr out \<and> length out = length d
           \<and> (\<forall>i<length d.
                 let state = tracker_after initial_state (take i d);
                     entry = classify (d ! i) (lastLevel state)
                 in (kind entry = UNMATCHED \<longrightarrow> out ! i = d ! i)
                  \<and> (kind entry \<noteq> UNMATCHED \<longrightarrow>
                       out ! i = apply_rendered (d ! i)
                                   (render entry (fst (inferLevel entry state)) config)))"
proof -
  have r: "rewrite config d = Inr (rewrite_pass config d)"
    using assms by (simp add: rewrite_def)
  have l: "length (rewrite_pass config d) = length d"
    by (simp add: rewrite_pass_def length_rewrite_paragraphs)
  have n: "\<forall>i<length d.
             let state = tracker_after initial_state (take i d);
                 entry = classify (d ! i) (lastLevel state)
             in (kind entry = UNMATCHED \<longrightarrow> rewrite_pass config d ! i = d ! i)
              \<and> (kind entry \<noteq> UNMATCHED \<longrightarrow>
                   rewrite_pass config d ! i =
                     apply_rendered (d ! i)
                       (render entry (fst (inferLevel entry state)) config))"
  proof (intro allI impI)
    fix i assume "i < length d"
    from rewrite_paragraphs_nth_exact [OF this, of config initial_state]
    show "let state = tracker_after initial_state (take i d);
              entry = classify (d ! i) (lastLevel state)
          in (kind entry = UNMATCHED \<longrightarrow> rewrite_pass config d ! i = d ! i)
           \<and> (kind entry \<noteq> UNMATCHED \<longrightarrow>
                rewrite_pass config d ! i =
                  apply_rendered (d ! i)
                    (render entry (fst (inferLevel entry state)) config))"
      unfolding rewrite_pass_def Let_def
      by (cases "kind (classify (d ! i)
                   (lastLevel (tracker_after initial_state (take i d))))") simp_all
  qed
  from r l n show ?thesis by blast
qed

theorem rewrite_total_order_preserving_witness:
  "valid_config example_config
   \<and> (\<exists>out. rewrite example_config two_entries = Inr out \<and> length out = 3
        \<and> out ! 0 = plain (asc ''Introduction'')
        \<and> raw_text (out ! 1) = asc ''Methods............9''
        \<and> raw_text (out ! 2) = asc ''    Sampling......12'')"
proof -
  have v: "valid_config example_config" by code_simp
  let ?st = "\<lambda>i. tracker_after initial_state (take i two_entries)"
  let ?e = "\<lambda>i. classify (two_entries ! i) (lastLevel (?st i))"
  have len: "length two_entries = 3" by (simp add: two_entries_def)
  have p0: "two_entries ! 0 = plain (asc ''Introduction'')" by (simp add: two_entries_def)
  have k0: "kind (?e 0) = UNMATCHED" by code_simp
  have k1: "kind (?e 1) \<noteq> UNMATCHED" by code_simp
  have k2: "kind (?e 2) \<noteq> UNMATCHED" by code_simp
  have t1: "raw_text (apply_rendered (two_entries ! 1)
              (render (?e 1) (fst (inferLevel (?e 1) (?st 1))) example_config))
            = asc ''Methods............9''" by code_simp
  have t2: "raw_text (apply_rendered (two_entries ! 2)
              (render (?e 2) (fst (inferLevel (?e 2) (?st 2))) example_config))
            = asc ''    Sampling......12''" by code_simp
  from rewrite_total_order_preserving [OF v, of two_entries]
  obtain out where r: "rewrite example_config two_entries = Inr out"
    and l: "length out = length two_entries"
    and n: "\<forall>i<length two_entries.
              (kind (?e i) = UNMATCHED \<longrightarrow> out ! i = two_entries ! i)
            \<and> (kind (?e i) \<noteq> UNMATCHED \<longrightarrow>
                 out ! i = apply_rendered (two_entries ! i)
                            (render (?e i) (fst (inferLevel (?e i) (?st i))) example_config))"
    unfolding Let_def by blast
  have "out ! 0 = plain (asc ''Introduction'')" using n k0 p0 len by auto
  moreover have "raw_text (out ! 1) = asc ''Methods............9''"
    using n k1 t1 len by auto
  moreover have "raw_text (out ! 2) = asc ''    Sampling......12''"
    using n k2 t2 len by auto
  ultimately show ?thesis using v r l len by auto
qed

lemma render_toc:
  "kind entry = TOC_ENTRY \<Longrightarrow>
   render entry lvl config =
     (let indent = replicate (nat (indentPerLevel config * int lvl)) space;
          page = (case pageNumber entry of None \<Rightarrow> [] | Some pn \<Rightarrow> page_text pn)
      in \<lparr>line_label = indent @ label entry,
          line_leader = replicate (nat (leaderLength config (length indent)
                                          (length (label entry)) (length page)))
                          (leaderChar config),
          line_page = page\<rparr>)"
  by (simp add: render_def Let_def)

text \<open>
  Claim C9, as the renderer has it. Under a valid configuration, the leader of every
  rendered TOC_ENTRY line has \<open>max(minLeaderLength, marginColumn - indentWidth - labelWidth
  - pageNumberWidth)\<close> fill characters. The page number ends at \<open>marginColumn\<close> when
  indentation, label, the minimum leader and the page number fit into the margin;
  otherwise it ends beyond the margin, at the sum of these four widths.
\<close>

theorem leader_length_and_margin:
  assumes "valid_config config" and "kind entry = TOC_ENTRY"
    and "pageNumber entry = Some pn"
    and "indentWidth = indentPerLevel config * int lvl"
    and "labelWidth = int (length (label entry))"
    and "pageNumberWidth = int (length (page_text pn))"
  shows "int (length (line_leader (render entry lvl config))) =
           max (minLeaderLength config)
               (marginColumn config - indentWidth - labelWidth - pageNumberWidth)
       \<and> (indentWidth + labelWidth + minLeaderLength config + pageNumberWidth
             \<le> marginColumn config
           \<longrightarrow> int (right_edge (render entry lvl config)) = marginColumn config)
       \<and> (marginColumn config
             < indentWidth + labelWidth + minLeaderLength config + pageNumberWidth
           \<longrightarrow> int (right_edge (render entry lvl config)) =
                 indentWidth + labelWidth + minLeaderLength config + pageNumberWidth)"
proof -
  have nn: "0 \<le> indentPerLevel config * int lvl" "0 \<le> minLeaderLength config"
    using assms(1) by (simp_all add: valid_config_def)
  show ?thesis
    using nn assms(3-6)
    by (auto simp: render_toc [OF assms(2)] Let_def leaderLength_def right_edge_def
        line_text_def max_def)
qed

theorem leader_length_and_margin_witness:
  "valid_config example_config
   \<and> kind (classify short_line 0) = TOC_ENTRY
   \<and> int (length (line_leader (render (classify short_line 0) 0 example_config))) = 14
   \<and> int (right_edge (render (classify short_line 0) 0 example_config)) = 20
   \<and> kind (classify long_line 0) = TOC_ENTRY
   \<and> int (length (line_leader (render (classify long_line 0) 0 example_config))) = 3
   \<and> int (right_edge (render (classify long_line 0) 0 example_config)) = 39"
proof -
  have v: "valid_config example_config" by code_simp
  have k0: "kind (classify short_line 0) = TOC_ENTRY" by code_simp
  have p0: "pageNumber (classify short_line 0) = Some (Arabic 5)" by code_simp
  have l0: "int (length (label (classify short_line 0))) = 5" by code_simp
  have k1: "kind (classify long_line 0) = TOC_ENTRY" by code_simp
  have p1: "pageNumber (classify long_line 0) = Some (Arabic 7)" by code_simp
  have l1: "int (length (label (classify long_line 0))) = 35" by code_simp
  have w5: "int (length (page_text (Arabic 5))) = 1" by code_simp
  have w7: "int (length (page_text (Arabic 7))) = 1" by code_simp
  have c: "indentPerLevel example_config = 4" "marginColumn example_config = 20"
    "minLeaderLength example_config = 3" by (simp_all add: example_config_def)
  show ?thesis
    using leader_length_and_margin [OF v k0 p0 refl refl refl, of 0]
      leader_length_and_margin [OF v k1 p1 refl refl refl, of 0]
      v k0 k1
    by (simp add: l0 l1 w5 w7 c)
qed

text \<open>
  Claim C9 as stated fails: in one document under one configuration with margin 20, the
  page number of a short entry ends at column 20 and that of a long entry at column 39.
\<close>

theorem margin_invariant_counterexample:
  "map (\<lambda>p. kind (classify p 0)) narrow_document = [TOC_ENTRY, TOC_ENTRY]
   \<and> map (\<lambda>p. right_edge (render (classify p 0) 0 example_config)) narrow_document = [20, 39]
   \<and> map (\<lambda>p. length (raw_text p)) (rewrite_pass example_config narrow_document) = [20, 39]"
  by code_simp

lemma render_level_field: "render (entry\<lparr>level := n\<rparr>) lvl config = render entry lvl config"
  by (simp add: render_def Let_def split: kind.splits)

lemma classify_roman_lines:
  "classify (roman_line (asc ''iv'')) 0 =
     \<lparr>kind = TOC_ENTRY, label = asc ''Preface'', pageNumber = Some (Roman (asc ''iv'')),
      level = 0, rawIndentation = 0\<rparr>"
  "classify (roman_line (asc ''IV'')) 0 =
     \<lparr>kind = TOC_ENTRY, label = asc ''Preface'', pageNumber = Some (Roman (asc ''IV'')),
      level = 0, rawIndentation = 0\<rparr>"
  "classify (roman_line (asc ''Iv'')) 0 =
     \<lparr>kind = TOC_ENTRY, label = asc ''Preface'', pageNumber = Some (Roman (asc ''Iv'')),
      level = 0, rawIndentation = 0\<rparr>"
  by code_simp+

lemma roman_values:
  "page_value (Roman (asc ''iv'')) = Some 4"
  "page_value (Roman (asc ''IV'')) = Some 4"
  "page_value (Roman (asc ''Iv'')) = Some 4"
  by code_simp+

lemma roman_cases:
  "roman_case (asc ''iv'') = Lower" "roman_case (asc ''IV'') = Upper"
  "roman_case (asc ''Iv'') = Mixed" "map to_upper (asc ''Iv'') = asc ''IV''"
  by code_simp+

lemma render_roman_page:
  "kind entry = TOC_ENTRY \<Longrightarrow> pageNumber entry = Some (Roman token) \<Longrightarrow>
   line_page (render entry lvl config) =
     (if roman_case token = Mixed then map to_upper token else token)"
  by (simp add: render_toc Let_def page_text_def)

text \<open>
  Claim C10, as classifier and renderer have it. The page tokens \<open>iv\<close>, \<open>IV\<close> and
  \<open>Iv\<close> are all classified as Roman page numbers of value 4. \<open>IV\<close> is rendered as it
  is, the mixed-case \<open>Iv\<close> as \<open>IV\<close>, and the lower-case \<open>iv\<close> verbatim as \<open>iv\<close>:
  every Roman page number is rendered verbatim unless its case is mixed, and in upper case
  then.
\<close>

theorem roman_page_numbers:
  "(\<forall>token \<in> {asc ''iv'', asc ''IV'', asc ''Iv''}.
      kind (classify (roman_line token) n) = TOC_ENTRY
    \<and> pageNumber (classify (roman_line token) n) = Some (Roman token)
    \<and> page_value (Roman token) = Some 4)
   \<and> line_page (render (classify (roman_line (asc ''IV'')) n) lvl config) = asc ''IV''
   \<and> line_page (render (classify (roman_line (asc ''Iv'')) n) lvl config) = asc ''IV''
   \<and> line_page (render (classify (roman_line (asc ''iv'')) n) lvl config) = asc ''iv''
   \<and> (\<forall>entry token. kind entry = TOC_ENTRY \<and> pageNumber entry = Some (Roman token) \<longrightarrow>
        line_page (render entry lvl config) =
          (if roman_case token = Mixed then map to_upper token else token))"
proof -
  have a: "\<forall>token \<in> {asc ''iv'', asc ''IV'', asc ''Iv''}.
      kind (classify (roman_line token) n) = TOC_ENTRY
    \<and> pageNumber (classify (roman_line token) n) = Some (Roman token)
    \<and> page_value (Roman token) = Some 4"
    by (simp add: classify_prior [of _ n] classify_roman_lines roman_values)
  have b: "line_page (render (classify (roman_line (asc ''IV'')) n) lvl config) = asc ''IV''"
    "line_page (render (classify (roman_line (asc ''Iv'')) n) lvl config) = asc ''IV''"
    "line_page (render (classify (roman_line (asc ''iv'')) n) lvl config) = asc ''iv''"
    by (simp_all add: classify_prior [of _ n] render_level_field classify_roman_lines
        render_roman_page roman_cases)
  have c: "\<forall>entry token. kind entry = TOC_ENTRY \<and> pageNumber entry = Some (Roman token) \<longrightarrow>
        line_page (render entry lvl config) =
          (if roman_case token = Mixed then map to_upper token else token)"
    by (simp add: render_roman_page)
  from a b c show ?thesis by blast
qed

theorem roman_page_numbers_witness:
  "kind (classify (roman_line (asc ''Iv'')) 0) = TOC_ENTRY
   \<and> pageNumber (classify (roman_line (asc ''Iv'')) 0) = Some (Roman (asc ''Iv''))
   \<and> page_value (Roman (asc ''Iv'')) = Some 4
   \<and> roman_case (asc ''Iv'') = Mixed
   \<and> line_page (render (classify (roman_line (asc ''Iv'')) 0) 0 example_config) = asc ''IV''
   \<and> roman_case (asc ''iv'') \<noteq> Mixed
   \<and> line_page (render (classify (roman_line (asc ''iv'')) 0) 0 example_config) = asc ''iv''"
proof -
  have m: "roman_case (asc ''Iv'') = Mixed" "roman_case (asc ''iv'') \<noteq> Mixed" by code_simp+
  show ?thesis
    using roman_page_numbers [of 0 0 example_config] m by simp
qed

text \<open>
  Claim C10 as stated fails: the token \<open>iv\<close> has value 4 and is rendered as \<open>iv\<close>, not
  as \<open>IV\<close>.
\<close>

theorem lower_case_roman_counterexample:
  "pageNumber (classify (roman_line (asc ''iv'')) 0) = Some (Roman (asc ''iv''))
   \<and> page_value (Roman (asc ''iv'')) = Some 4
   \<and> line_page (render (classify (roman_line (asc ''iv'')) 0) 0 example_config) = asc ''iv''
   \<and> asc ''iv'' \<noteq> asc ''IV''"
  by code_simp

end
